theory Spec2Isabelle
  imports Complex_Main "HOL-Library.Word" "HOL-Library.Sublist"
begin

unbundle bit_operations_syntax

section \<open>Python values\<close>

text \<open>
  The values that \<^verbatim>\<open>json.loads\<close> returns and that the application passes around.
  A Python \<^verbatim>\<open>int\<close> is unbounded; a \<^verbatim>\<open>float\<close> is carried as its IEEE-754 binary64
  bit pattern, and a sum of floats is written out only where it is exact; a \<^verbatim>\<open>dict\<close>
  is the list of its items in insertion order (its keys are pairwise distinct, and JSON
  keys are strings).
  \<^verbatim>\<open>None\<close> is \<open>JNull\<close>. A string is the list of its code points below 256.
\<close>

datatype json =
    JNull
  | JBool bool
  | JInt int
  | JFloat "64 word"
  | JStr string
  | JList "json list"
  | JDict "(string \<times> json) list"

text \<open>The exceptions that the code can meet: those of the Python run time by name
  (\<open>OSError\<close> is what the file system raises), those of the remote service and of the
  data-frame library with their message.\<close>

datatype error =
    AttributeError
  | TypeError
  | ValueError
  | JSONDecodeError
  | OSError
  | ServiceError string
  | LibraryError string

text \<open>Python truth value testing (\<^verbatim>\<open>if x:\<close>, \<^verbatim>\<open>not x\<close>): \<^verbatim>\<open>None\<close>, \<^verbatim>\<open>False\<close>, zero of
  any numeric type (both signed float zeros), and every empty container are false.\<close>

fun truthy :: "json \<Rightarrow> bool" where
  "truthy JNull = False"
| "truthy (JBool b) = b"
| "truthy (JInt i) = (i \<noteq> 0)"
| "truthy (JFloat w) = (w AND 0x7FFFFFFFFFFFFFFF \<noteq> 0)"
| "truthy (JStr s) = (s \<noteq> [])"
| "truthy (JList xs) = (xs \<noteq> [])"
| "truthy (JDict kvs) = (kvs \<noteq> [])"

text \<open>\<^verbatim>\<open>x.get(key, default)\<close>: only a dict has the method; on every other value the
  attribute lookup raises \<^verbatim>\<open>AttributeError\<close>.\<close>

fun py_get :: "json \<Rightarrow> string \<Rightarrow> json \<Rightarrow> error + json" where
  "py_get (JDict kvs) k d = Inr (case map_of kvs k of Some v \<Rightarrow> v | None \<Rightarrow> d)"
| "py_get _ k d = Inl AttributeError"

text \<open>\<^verbatim>\<open>for x in v\<close>: a list yields its elements, a string its characters as one-character
  strings, a dict its keys; \<^verbatim>\<open>None\<close>, booleans and numbers are not iterable.\<close>

fun py_iter :: "json \<Rightarrow> error + json list" where
  "py_iter (JList xs) = Inr xs"
| "py_iter (JStr s) = Inr (map (\<lambda>c. JStr [c]) s)"
| "py_iter (JDict kvs) = Inr (map (\<lambda>kv. JStr (fst kv)) kvs)"
| "py_iter _ = Inl TypeError"

section \<open>The flattener: \<^verbatim>\<open>flatten_to_rows\<close>\<close>

text \<open>One flat row: the dict with the seventeen fixed keys that \<^verbatim>\<open>flatten_to_rows\<close>
  builds for a line item (\<^verbatim>\<open>app.py\<close> lines 100-118).\<close>

record row =
  Invoice_Number :: json
  Waybill_Number :: json
  Customer_Name :: json
  Order_Number :: json
  Invoice_Date :: json
  Line_No :: json
  Item_Code :: json
  Item_Description :: json
  Quantity :: json
  UOM :: json
  Unit_Price :: json
  Total_Amount :: json
  Discount_Amount :: json
  VAT :: json
  Amount_Incl_VAT :: json
  Batch_No :: json
  Expiry_Date :: json

text \<open>The five header values, read once before the loop (lines 93-97).\<close>

record header =
  invoice_number :: json
  waybill_number :: json
  customer_name :: json
  order_number :: json
  invoice_date :: json

definition read_header :: "json \<Rightarrow> error + header" where
  "read_header invoice_data =
     (case py_get invoice_data ''invoice_number'' (JStr '''') of Inl e \<Rightarrow> Inl e | Inr a \<Rightarrow>
      case py_get invoice_data ''waybill_number'' (JStr '''') of Inl e \<Rightarrow> Inl e | Inr b \<Rightarrow>
      case py_get invoice_data ''customer_name'' (JStr '''') of Inl e \<Rightarrow> Inl e | Inr c \<Rightarrow>
      case py_get invoice_data ''order_number'' (JStr '''') of Inl e \<Rightarrow> Inl e | Inr d \<Rightarrow>
      case py_get invoice_data ''invoice_date'' (JStr '''') of Inl e \<Rightarrow> Inl e | Inr f \<Rightarrow>
      Inr \<lparr>invoice_number = a, waybill_number = b, customer_name = c,
           order_number = d, invoice_date = f\<rparr>)"

text \<open>The dict literal of the loop body (lines 100-118). Every \<^verbatim>\<open>item.get\<close> raises
  on an item that is not a dict, so the first one decides.\<close>

fun make_row :: "header \<Rightarrow> json \<Rightarrow> error + row" where
  "make_row h (JDict it) = Inr
     \<lparr>Invoice_Number = invoice_number h,
      Waybill_Number = waybill_number h,
      Customer_Name = customer_name h,
      Order_Number = order_number h,
      Invoice_Date = invoice_date h,
      Line_No = (case map_of it ''line_no'' of Some v \<Rightarrow> v | None \<Rightarrow> JStr ''''),
      Item_Code = (case map_of it ''item_code'' of Some v \<Rightarrow> v | None \<Rightarrow> JStr ''''),
      Item_Description =
        (case map_of it ''item_description'' of Some v \<Rightarrow> v | None \<Rightarrow> JStr ''''),
      Quantity = (case map_of it ''quantity'' of Some v \<Rightarrow> v | None \<Rightarrow> JInt 0),
      UOM = (case map_of it ''uom'' of Some v \<Rightarrow> v | None \<Rightarrow> JStr ''''),
      Unit_Price = (case map_of it ''unit_price'' of Some v \<Rightarrow> v | None \<Rightarrow> JInt 0),
      Total_Amount = (case map_of it ''total_amount'' of Some v \<Rightarrow> v | None \<Rightarrow> JInt 0),
      Discount_Amount =
        (case map_of it ''discount_amount'' of Some v \<Rightarrow> v | None \<Rightarrow> JInt 0),
      VAT = (case map_of it ''vat'' of Some v \<Rightarrow> v | None \<Rightarrow> JInt 0),
      Amount_Incl_VAT =
        (case map_of it ''amount_incl_vat'' of Some v \<Rightarrow> v | None \<Rightarrow> JInt 0),
      Batch_No = (case map_of it ''batch_no'' of Some v \<Rightarrow> v | None \<Rightarrow> JStr ''''),
      Expiry_Date = (case map_of it ''expiry_date'' of Some v \<Rightarrow> v | None \<Rightarrow> JStr '''')\<rparr>"
| "make_row h _ = Inl AttributeError"

text \<open>The loop of lines 99-119, with \<open>rows\<close> the list built so far. An exception in
  the body leaves the function, and the rows built so far are lost with it.\<close>

fun rows_loop :: "header \<Rightarrow> json list \<Rightarrow> row list \<Rightarrow> error + row list" where
  "rows_loop h [] rows = Inr rows"
| "rows_loop h (item # items) rows =
     (case make_row h item of
        Inl e \<Rightarrow> Inl e
      | Inr r \<Rightarrow> rows_loop h items (rows @ [r]))"

text \<open>\<^verbatim>\<open>flatten_to_rows\<close> of \<^verbatim>\<open>app.py\<close> (lines 87-121). The method
  \<^verbatim>\<open>InvoiceExtractor.flatten_to_rows\<close> of \<^verbatim>\<open>keep.py\<close> (lines 80-120) has the same
  body, statement for statement.\<close>

definition flatten_to_rows :: "json \<Rightarrow> error + row list" where
  "flatten_to_rows invoice_data =
     (if \<not> truthy invoice_data then Inr []
      else case read_header invoice_data of
        Inl e \<Rightarrow> Inl e
      | Inr h \<Rightarrow>
         (case py_get invoice_data ''line_items'' (JList []) of
            Inl e \<Rightarrow> Inl e
          | Inr li \<Rightarrow>
             (case py_iter li of
                Inl e \<Rightarrow> Inl e
              | Inr items \<Rightarrow> rows_loop h items [])))"

section \<open>The extractor adapter: \<^verbatim>\<open>extract_invoice_data\<close>\<close>

text \<open>What lies outside the repository is a parameter of the model:
  \<^item> \<open>client_error\<close>: the exception, if any, that constructing \<^verbatim>\<open>InvoiceExtractor()\<close>
    raises (the service client rejects a missing key);
  \<^item> \<open>service\<close>: the two calls to the remote service for a path (the upload, then
    \<^verbatim>\<open>generate_content\<close>), giving the exception raised or \<^verbatim>\<open>response.text\<close>, which
    is \<^verbatim>\<open>None\<close> for a response without text. It is taken as a function of the path;
  \<^item> \<open>json_loads\<close>: \<^verbatim>\<open>json.loads\<close>;
  \<^item> \<open>lib_nunique\<close>, \<open>lib_int_sum\<close>, \<open>lib_float_sum\<close>: what the data-frame library
    returns for \<^verbatim>\<open>col.nunique()\<close>, \<^verbatim>\<open>int(col.sum())\<close> and \<^verbatim>\<open>float(col.sum())\<close> on the
    columns whose treatment is not written out below (floating-point sums that round,
    inferred column types);
  \<^item> \<open>secure_filename\<close> and \<open>uuid4\<close>: the sanitiser of the framework and the text of
    the \<open>n\<close>-th identifier drawn during a request;
  \<^item> \<open>save_error\<close>: the exception, if any, with which the file system refuses to
    write a file at a path (no space, no permission, no folder);
  \<^item> \<open>max_form_memory_size\<close>: the framework's limit on the size of one form field
    that is not a file, where the installed version has one.\<close>

record env =
  client_error :: "error option"
  service :: "json \<Rightarrow> error + string option"
  json_loads :: "string \<Rightarrow> error + json"
  lib_nunique :: "json list \<Rightarrow> error + nat"
  lib_int_sum :: "json list \<Rightarrow> error + int"
  lib_float_sum :: "json list \<Rightarrow> error + 64 word"
  secure_filename :: "string \<Rightarrow> string"
  uuid4 :: "nat \<Rightarrow> string"
  save_error :: "string \<Rightarrow> error option"
  max_form_memory_size :: "nat option"

text \<open>\<^verbatim>\<open>str.strip()\<close> removes leading and trailing white space; below code point 256
  the white-space characters are 9-13, 28-32, 133 and 160.\<close>

definition is_space :: "char \<Rightarrow> bool" where
  "is_space c = ((of_char c :: nat) \<in> {9, 10, 11, 12, 13, 28, 29, 30, 31, 32, 133, 160})"

definition py_strip :: "string \<Rightarrow> string" where
  "py_strip s = rev (dropWhile is_space (rev (dropWhile is_space s)))"

text \<open>\<^verbatim>\<open>s.replace(old, new)\<close>: the occurrences of \<open>old\<close> are found from the left
  and do not overlap; an empty \<open>old\<close> matches before every character and at the end.\<close>

fun replace_from :: "string \<Rightarrow> string \<Rightarrow> string \<Rightarrow> string" where
  "replace_from old new [] = []"
| "replace_from old new (c # cs) =
     (if prefix old (c # cs) then new @ replace_from old new (drop (length old - 1) cs)
      else c # replace_from old new cs)"

definition py_replace :: "string \<Rightarrow> string \<Rightarrow> string \<Rightarrow> string" where
  "py_replace old new s =
     (if old = [] then new @ concat (map (\<lambda>c. c # new) s) else replace_from old new s)"

text \<open>Line 76: the fence markers (three grave accents, code point 96, with or without
  \<^verbatim>\<open>json\<close> after them) are cut out of the response text.\<close>

definition fence :: string where
  "fence = replicate 3 (CHR 0x60)"

definition clean_response :: "string \<Rightarrow> string" where
  "clean_response text =
     py_strip (py_replace fence [] (py_replace (fence @ ''json'') [] (py_strip text)))"

text \<open>What the application prints: the extractor's \<^verbatim>\<open>Error: ...\<close> (line 81) and the
  batch loop's \<^verbatim>\<open>Error processing <path>: ...\<close> (line 177).\<close>

datatype log_line = ExtractError error | ProcessError json error

text \<open>\<^verbatim>\<open>extract_invoice_data\<close> of \<^verbatim>\<open>app.py\<close> (lines 32-82): every exception
  inside the \<^verbatim>\<open>try\<close> is caught, printed, and turned into \<^verbatim>\<open>None\<close>. The result is
  the returned value with the lines printed.\<close>

definition extract_invoice_data :: "env \<Rightarrow> json \<Rightarrow> json \<times> log_line list" where
  "extract_invoice_data ev image_path =
     (case service ev image_path of
        Inl e \<Rightarrow> (JNull, [ExtractError e])
      | Inr None \<Rightarrow> (JNull, [ExtractError AttributeError])
      | Inr (Some text) \<Rightarrow>
         (case json_loads ev (clean_response text) of
            Inl e \<Rightarrow> (JNull, [ExtractError e])
          | Inr data \<Rightarrow> (data, [])))"

section \<open>The batch loop and the statistics: \<^verbatim>\<open>process_files\<close>\<close>

text \<open>The loop of lines 169-177 over the remaining paths, with the accumulated rows, the
  counter and the lines printed so far. An exception of \<^verbatim>\<open>flatten_to_rows\<close> is caught
  by the \<^verbatim>\<open>except\<close> of line 176 before \<^verbatim>\<open>all_rows\<close> or \<^verbatim>\<open>processed\<close> change.\<close>

fun process_loop ::
  "env \<Rightarrow> json list \<Rightarrow> row list \<times> nat \<times> log_line list \<Rightarrow> row list \<times> nat \<times> log_line list"
where
  "process_loop ev [] acc = acc"
| "process_loop ev (filepath # rest) (all_rows, processed, out) =
     (case extract_invoice_data ev filepath of (invoice_data, printed) \<Rightarrow>
        if truthy invoice_data then
          (case flatten_to_rows invoice_data of
             Inr rows \<Rightarrow> process_loop ev rest (all_rows @ rows, processed + 1, out @ printed)
           | Inl e \<Rightarrow>
               process_loop ev rest
                 (all_rows, processed, out @ printed @ [ProcessError filepath e]))
        else process_loop ev rest (all_rows, processed, out @ printed))"

record stats =
  total_documents :: nat
  total_line_items :: nat
  total_quantity :: int
  total_value :: json

text \<open>The numeric value of a Python number, for comparisons across \<^verbatim>\<open>int\<close>,
  \<^verbatim>\<open>bool\<close> and \<^verbatim>\<open>float\<close> (\<^verbatim>\<open>0 == 0.0\<close>); infinities and NaN have none.\<close>

definition float_value :: "64 word \<Rightarrow> rat option" where
  "float_value w =
     (let e = unat (drop_bit 52 w AND 0x7FF);
          m = unat (w AND 0xFFFFFFFFFFFFF);
          sg = (if bit w 63 then - 1 else 1) in
      if e = 2047 then None
      else if e = 0 then Some (sg * of_nat m / 2 ^ 1074)
      else if e < 1075 then Some (sg * of_nat (2 ^ 52 + m) / 2 ^ (1075 - e))
      else Some (sg * of_nat (2 ^ 52 + m) * 2 ^ (e - 1075)))"

fun num_value :: "json \<Rightarrow> rat option" where
  "num_value (JBool b) = Some (if b then 1 else 0)"
| "num_value (JInt i) = Some (of_int i)"
| "num_value (JFloat w) = float_value w"
| "num_value _ = None"

text \<open>\<^verbatim>\<open>Series.nunique()\<close> counts the distinct entries of a column and leaves
  \<^verbatim>\<open>None\<close> out (\<^verbatim>\<open>dropna=True\<close> is the default). It is written out for a column of
  strings, \<^verbatim>\<open>None\<close> and integers of magnitude at most \<open>2\<^sup>5\<^sup>3\<close>: whether the library
  keeps such a column as Python objects (a string is present), as 64-bit integers
  (integers only) or as floats (integers beside \<^verbatim>\<open>None\<close>), distinct entries stay
  distinct and equal entries equal.\<close>

fun plain_value :: "json \<Rightarrow> bool" where
  "plain_value JNull = True"
| "plain_value (JStr s) = True"
| "plain_value (JInt i) = (\<bar>i\<bar> \<le> 2 ^ 53)"
| "plain_value _ = False"

definition nunique :: "env \<Rightarrow> json list \<Rightarrow> error + nat" where
  "nunique ev col =
     (if list_all plain_value col then Inr (length (remdups (filter (\<lambda>v. v \<noteq> JNull) col)))
      else lib_nunique ev col)"

text \<open>\<^verbatim>\<open>int(col.sum())\<close> is written out for three kinds of column.

  A column of integers that all fit 64 signed bits is stored as such and summed with
  wrap-around.

  A column of numbers (integers, finite floats) and \<^verbatim>\<open>None\<close> is summed with
  \<^verbatim>\<open>None\<close> left out, in floating point when a float or \<^verbatim>\<open>None\<close> is present, and
  \<^verbatim>\<open>int\<close> cuts the fraction of the result off, towards zero. The result is written
  out where no addition can round, in whatever order the library adds: the numbers are
  multiples of one power of two (the reciprocal of their common denominator \<open>d\<close>)
  and their magnitudes, counted in that unit, add up to at most \<open>2\<^sup>5\<^sup>3\<close>, so that
  every partial sum is a float.

  A column that holds integers and strings, and nothing else, keeps the Python objects
  and adds them with \<^verbatim>\<open>+\<close>, which raises \<^verbatim>\<open>TypeError\<close> between an \<^verbatim>\<open>int\<close> and a
  \<^verbatim>\<open>str\<close>.\<close>

fun is_int64 :: "json \<Rightarrow> bool" where
  "is_int64 (JInt i) = (- (2 ^ 63) \<le> i \<and> i < 2 ^ 63)"
| "is_int64 _ = False"

fun is_int :: "json \<Rightarrow> bool" where
  "is_int (JInt i) = True"
| "is_int _ = False"

fun is_str :: "json \<Rightarrow> bool" where
  "is_str (JStr s) = True"
| "is_str _ = False"

fun the_int :: "json \<Rightarrow> int" where
  "the_int (JInt i) = i"
| "the_int _ = 0"

fun number_or_null :: "json \<Rightarrow> bool" where
  "number_or_null JNull = True"
| "number_or_null (JInt i) = True"
| "number_or_null (JFloat w) = (float_value w \<noteq> None)"
| "number_or_null _ = False"

text \<open>What an entry adds to the sum: its value, and nothing for \<^verbatim>\<open>None\<close>.\<close>

definition quantity_value :: "json \<Rightarrow> rat" where
  "quantity_value v = (case num_value v of Some x \<Rightarrow> x | None \<Rightarrow> 0)"

definition common_denominator :: "rat list \<Rightarrow> int" where
  "common_denominator xs = foldr (\<lambda>x d. lcm (snd (quotient_of x)) d) xs 1"

definition sums_exactly :: "rat list \<Rightarrow> bool" where
  "sums_exactly xs = (sum_list (map abs xs) * of_int (common_denominator xs) \<le> 2 ^ 53)"

text \<open>\<^verbatim>\<open>int(x)\<close> of a finite float.\<close>

definition py_trunc :: "rat \<Rightarrow> int" where
  "py_trunc x = (if 0 \<le> x then \<lfloor>x\<rfloor> else \<lceil>x\<rceil>)"

definition int_of_sum :: "env \<Rightarrow> json list \<Rightarrow> error + int" where
  "int_of_sum ev col =
     (if list_all is_int64 col
      then Inr (sint (word_of_int (sum_list (map the_int col)) :: 64 word))
      else if list_all number_or_null col \<and> sums_exactly (map quantity_value col)
      then Inr (py_trunc (sum_list (map quantity_value col)))
      else if list_all (\<lambda>v. is_int v \<or> is_str v) col \<and> list_ex is_int col \<and> list_ex is_str col
      then Inl TypeError
      else lib_int_sum ev col)"

text \<open>The statistics of lines 183-189. A non-empty \<open>all_rows\<close> gives a data frame that
  is not empty (\<open>n\<close> rows, seventeen columns), an empty one the empty frame; each entry
  of the dict literal carries its own test of \<^verbatim>\<open>df.empty\<close>. In the empty case
  \<^verbatim>\<open>total_value\<close> is the integer \<open>0\<close>.\<close>

definition stat_total_documents :: "env \<Rightarrow> row list \<Rightarrow> error + nat" where
  "stat_total_documents ev all_rows =
     (if all_rows \<noteq> [] then nunique ev (map Invoice_Number all_rows) else Inr 0)"

definition stat_total_quantity :: "env \<Rightarrow> row list \<Rightarrow> error + int" where
  "stat_total_quantity ev all_rows =
     (if all_rows \<noteq> [] then int_of_sum ev (map Quantity all_rows) else Inr 0)"

definition stat_total_value :: "env \<Rightarrow> row list \<Rightarrow> error + json" where
  "stat_total_value ev all_rows =
     (if all_rows \<noteq> [] then
        (case lib_float_sum ev (map Amount_Incl_VAT all_rows) of
           Inl e \<Rightarrow> Inl e
         | Inr v \<Rightarrow> Inr (JFloat v))
      else Inr (JInt 0))"

text \<open>The entries are evaluated in the order written, so the first exception is the one
  raised.\<close>

definition calc_stats :: "env \<Rightarrow> row list \<Rightarrow> error + stats" where
  "calc_stats ev all_rows =
     (case stat_total_documents ev all_rows of
        Inl e \<Rightarrow> Inl e
      | Inr d \<Rightarrow>
         (case stat_total_quantity ev all_rows of
            Inl e \<Rightarrow> Inl e
          | Inr q \<Rightarrow>
             (case stat_total_value ev all_rows of
                Inl e \<Rightarrow> Inl e
              | Inr v \<Rightarrow>
                  Inr \<lparr>total_documents = d, total_line_items = length all_rows,
                       total_quantity = q, total_value = v\<rparr>)))"

text \<open>The process-wide state: the global \<^verbatim>\<open>extracted_data\<close> (line 25) and what has been
  printed.\<close>

record state =
  extracted_data :: "row list"
  printed_lines :: "log_line list"

record uploaded =
  original_name :: string
  stored_name :: string
  path :: string
  size_bytes :: nat

datatype response =
    ErrorResponse nat string
  | ProcessResponse nat nat stats
  | DataResponse "row list" nat
  | UploadResponse "uploaded list" nat
  | Unhandled error

text \<open>\<^verbatim>\<open>process_files\<close> (lines 156-196) on the decoded request body \<open>data\<close>. The
  global is assigned at line 180, after the loop and before the statistics; an exception
  outside the loop's \<^verbatim>\<open>try\<close> leaves the handler.\<close>

definition process_files :: "env \<Rightarrow> state \<Rightarrow> json \<Rightarrow> response \<times> state" where
  "process_files ev st data =
     (case py_get data ''file_paths'' (JList []) of
        Inl e \<Rightarrow> (Unhandled e, st)
      | Inr file_paths \<Rightarrow>
          if \<not> truthy file_paths then (ErrorResponse 400 ''No files to process'', st)
          else (case client_error ev of
            Some e \<Rightarrow> (Unhandled e, st)
          | None \<Rightarrow>
             (case py_iter file_paths of
                Inl e \<Rightarrow> (Unhandled e, st)
              | Inr paths \<Rightarrow>
                 (case process_loop ev paths ([], 0, []) of (all_rows, processed, out) \<Rightarrow>
                    let st' = \<lparr>extracted_data = all_rows,
                               printed_lines = printed_lines st @ out\<rparr> in
                    (case calc_stats ev all_rows of
                       Inl e \<Rightarrow> (Unhandled e, st')
                     | Inr s \<Rightarrow> (ProcessResponse processed (length all_rows) s, st'))))))"

text \<open>\<^verbatim>\<open>get_data\<close> (lines 199-203).\<close>

definition get_data :: "state \<Rightarrow> response" where
  "get_data st = DataResponse (extracted_data st) (length (extracted_data st))"

section \<open>Upload: \<^verbatim>\<open>allowed_file\<close> and \<^verbatim>\<open>upload_files\<close>\<close>

definition MAX_CONTENT_LENGTH :: nat where
  "MAX_CONTENT_LENGTH = 16 * 1024 * 1024"

definition ALLOWED_EXTENSIONS :: "string set" where
  "ALLOWED_EXTENSIONS = {''png'', ''jpg'', ''jpeg'', ''pdf''}"

text \<open>\<^verbatim>\<open>str.lower()\<close> on the letters A-Z; no other character becomes a letter of an
  allowed extension.\<close>

definition lower_char :: "char \<Rightarrow> char" where
  "lower_char c =
     (case map_of (zip ''ABCDEFGHIJKLMNOPQRSTUVWXYZ'' ''abcdefghijklmnopqrstuvwxyz'') c of
        Some l \<Rightarrow> l
      | None \<Rightarrow> c)"

text \<open>\<^verbatim>\<open>filename.rsplit('.', 1)[1]\<close>, for a name with a dot: what follows the last dot.\<close>

definition extension :: "string \<Rightarrow> string" where
  "extension fname = rev (takeWhile (\<lambda>c. c \<noteq> CHR ''.'') (rev fname))"

definition allowed_file :: "string \<Rightarrow> bool" where
  "allowed_file fname =
     (CHR ''.'' \<in> set fname \<and> map lower_char (extension fname) \<in> ALLOWED_EXTENSIONS)"

text \<open>An uploaded part: its client-side file name (empty when there is none) and the
  number of bytes of its content. A request carries the size of its body, its form
  fields that are not files (name, and size of the value) and its file parts, each
  under a field name, in order.\<close>

record file_storage =
  filename :: string
  content_size :: nat

record upload_request =
  content_length :: nat
  form_fields :: "(string \<times> nat) list"
  files :: "(string \<times> file_storage) list"

text \<open>The framework parses the body when the handler first reads \<^verbatim>\<open>request.files\<close>
  (line 129), and refuses the request with status 413 when the body is larger than
  \<^verbatim>\<open>MAX_CONTENT_LENGTH\<close> (set at line 17), when it has more than 1000 parts (the
  framework's default), or when a form field is larger than the memory limit. The
  handler itself compares no size.\<close>

definition MAX_FORM_PARTS :: nat where
  "MAX_FORM_PARTS = 1000"

definition framework_accepts :: "env \<Rightarrow> upload_request \<Rightarrow> bool" where
  "framework_accepts ev req =
     (content_length req \<le> MAX_CONTENT_LENGTH \<and>
      length (form_fields req) + length (files req) \<le> MAX_FORM_PARTS \<and>
      (case max_form_memory_size ev of
         None \<Rightarrow> True
       | Some m \<Rightarrow> list_all (\<lambda>kv. snd kv \<le> m) (form_fields req)))"

text \<open>\<^verbatim>\<open>file.save(filepath)\<close> (line 140) raises what the file system raises: it refuses a
  file name of more than 255 bytes, and otherwise answers as the environment says. No
  \<^verbatim>\<open>try\<close> surrounds the call.\<close>

definition NAME_MAX :: nat where
  "NAME_MAX = 255"

definition file_save :: "env \<Rightarrow> string \<Rightarrow> error option" where
  "file_save ev filepath =
     (if length (rev (takeWhile (\<lambda>c. c \<noteq> CHR ''/'') (rev filepath))) > NAME_MAX
      then Some OSError
      else save_error ev filepath)"

text \<open>The loop of lines 135-147; \<open>n\<close> counts the identifiers drawn. A file object is
  true when its file name is not empty. The stored file has the size of the part. An
  exception of \<^verbatim>\<open>file.save\<close> leaves the loop and the handler.\<close>

fun upload_loop ::
  "env \<Rightarrow> file_storage list \<Rightarrow> nat \<Rightarrow> uploaded list \<Rightarrow> error + uploaded list"
where
  "upload_loop ev [] n uploaded_files = Inr uploaded_files"
| "upload_loop ev (file # rest) n uploaded_files =
     (if filename file \<noteq> [] \<and> allowed_file (filename file) then
        let fname = secure_filename ev (filename file);
            unique_filename = uuid4 ev n @ ''_'' @ fname;
            filepath = ''uploads/'' @ unique_filename
        in (case file_save ev filepath of
              Some e \<Rightarrow> Inl e
            | None \<Rightarrow>
                upload_loop ev rest (n + 1)
                  (uploaded_files @
                     [\<lparr>original_name = fname, stored_name = unique_filename, path = filepath,
                       size_bytes = content_size file\<rparr>]))
      else upload_loop ev rest n uploaded_files)"

text \<open>\<^verbatim>\<open>upload_files\<close> (lines 128-153). An exception that leaves the handler is answered
  with status 500.\<close>

definition upload_files :: "env \<Rightarrow> upload_request \<Rightarrow> response" where
  "upload_files ev req =
     (if \<not> framework_accepts ev req then ErrorResponse 413 ''Request Entity Too Large''
      else if ''files[]'' \<notin> fst ` set (files req) then ErrorResponse 400 ''No files provided''
      else
        let fs = map snd (filter (\<lambda>kf. fst kf = ''files[]'') (files req))
        in (case upload_loop ev fs 0 [] of
              Inl e \<Rightarrow> Unhandled e
            | Inr uploaded_files \<Rightarrow> UploadResponse uploaded_files (length uploaded_files)))"

section \<open>Properties of the flattener\<close>

fun is_dict :: "json \<Rightarrow> bool" where
  "is_dict (JDict kvs) = True"
| "is_dict _ = False"

text \<open>Row \<open>r\<close> carries the five header values read from \<open>record\<close> and the twelve
  line-item values read from \<open>item\<close>, each with the default that line 93-117 give it.\<close>

definition row_of_item :: "json \<Rightarrow> json \<Rightarrow> row \<Rightarrow> bool" where
  "row_of_item record item r =
     (py_get record ''invoice_number'' (JStr '''') = Inr (Invoice_Number r) \<and>
      py_get record ''waybill_number'' (JStr '''') = Inr (Waybill_Number r) \<and>
      py_get record ''customer_name'' (JStr '''') = Inr (Customer_Name r) \<and>
      py_get record ''order_number'' (JStr '''') = Inr (Order_Number r) \<and>
      py_get record ''invoice_date'' (JStr '''') = Inr (Invoice_Date r) \<and>
      py_get item ''line_no'' (JStr '''') = Inr (Line_No r) \<and>
      py_get item ''item_code'' (JStr '''') = Inr (Item_Code r) \<and>
      py_get item ''item_description'' (JStr '''') = Inr (Item_Description r) \<and>
      py_get item ''quantity'' (JInt 0) = Inr (Quantity r) \<and>
      py_get item ''uom'' (JStr '''') = Inr (UOM r) \<and>
      py_get item ''unit_price'' (JInt 0) = Inr (Unit_Price r) \<and>
      py_get item ''total_amount'' (JInt 0) = Inr (Total_Amount r) \<and>
      py_get item ''discount_amount'' (JInt 0) = Inr (Discount_Amount r) \<and>
      py_get item ''vat'' (JInt 0) = Inr (VAT r) \<and>
      py_get item ''amount_incl_vat'' (JInt 0) = Inr (Amount_Incl_VAT r) \<and>
      py_get item ''batch_no'' (JStr '''') = Inr (Batch_No r) \<and>
      py_get item ''expiry_date'' (JStr '''') = Inr (Expiry_Date r))"

text \<open>The record of the specification's end-to-end example: invoice \<^verbatim>\<open>INV1\<close> with two
  line items, of quantities 2 and 3 and amounts 50.0 and 75.0.\<close>

definition demo_items :: "json list" where
  "demo_items =
     [JDict [(''line_no'', JInt 1), (''quantity'', JInt 2),
             (''amount_incl_vat'', JFloat 0x4049000000000000)],
      JDict [(''line_no'', JInt 2), (''quantity'', JInt 3),
             (''amount_incl_vat'', JFloat 0x4052C00000000000)]]"

definition demo_record :: "(string \<times> json) list" where
  "demo_record = [(''invoice_number'', JStr ''INV1''), (''line_items'', JList demo_items)]"

section \<open>Words of the batch claims, and an example environment\<close>

text \<open>The exception with which the extraction of a path fails, if it does: a service
  error, a response without text, or a text that \<^verbatim>\<open>json.loads\<close> rejects.\<close>

definition extraction_failure :: "env \<Rightarrow> json \<Rightarrow> error option" where
  "extraction_failure ev p =
     (case service ev p of
        Inl e \<Rightarrow> Some e
      | Inr None \<Rightarrow> Some AttributeError
      | Inr (Some text) \<Rightarrow>
         (case json_loads ev (clean_response text) of Inl e \<Rightarrow> Some e | Inr data \<Rightarrow> None))"

text \<open>The files that the loop counts: the extracted value is true (neither \<^verbatim>\<open>None\<close>
  nor empty) and \<^verbatim>\<open>flatten_to_rows\<close> raises nothing on it.\<close>

definition counts_as_processed :: "env \<Rightarrow> json \<Rightarrow> bool" where
  "counts_as_processed ev p =
     (truthy (fst (extract_invoice_data ev p)) \<and>
      \<not> isl (flatten_to_rows (fst (extract_invoice_data ev p))))"

text \<open>An example service: \<^verbatim>\<open>inv1.png\<close> is answered with the record of the end-to-end
  example, \<^verbatim>\<open>header.png\<close> with a record that has no line items, \<^verbatim>\<open>blank.png\<close> with a
  fenced empty object, \<^verbatim>\<open>garbled.png\<close> with prose, and every other path with an
  error.\<close>

definition demo_text :: string where
  \<open>demo_text = ''{"invoice_number":"INV1","line_items":[{"line_no":1,"quantity":2,"amount_incl_vat":50.0},{"line_no":2,"quantity":3,"amount_incl_vat":75.0}]}''\<close>

definition demo_blank_text :: string where
  "demo_blank_text = fence @ ''json'' @ [CHR 0x0A] @ ''{}'' @ [CHR 0x0A] @ fence"

definition demo_service :: "json \<Rightarrow> error + string option" where
  \<open>demo_service p =
     (if p = JStr ''inv1.png'' then Inr (Some demo_text)
      else if p = JStr ''header.png'' then Inr (Some ''{"invoice_number":"INV2"}'')
      else if p = JStr ''blank.png'' then Inr (Some demo_blank_text)
      else if p = JStr ''garbled.png'' then Inr (Some ''I cannot read this image.'')
      else Inl (ServiceError ''unavailable''))\<close>

definition demo_loads :: "string \<Rightarrow> error + json" where
  \<open>demo_loads text =
     (if text = demo_text then Inr (JDict demo_record)
      else if text = ''{"invoice_number":"INV2"}'' then
        Inr (JDict [(''invoice_number'', JStr ''INV2'')])
      else if text = ''{}'' then Inr (JDict [])
      else Inl JSONDecodeError)\<close>

definition demo_env :: env where
  "demo_env =
     \<lparr>client_error = None,
      service = demo_service,
      json_loads = demo_loads,
      lib_nunique = (\<lambda>col. Inl (LibraryError ''outside the example'')),
      lib_int_sum = (\<lambda>col. Inl (LibraryError ''outside the example'')),
      lib_float_sum = (\<lambda>col.
        if col = [JFloat 0x4049000000000000, JFloat 0x4052C00000000000]
        then Inr 0x405F400000000000 else Inl (LibraryError ''outside the example'')),
      secure_filename = (\<lambda>s. s),
      uuid4 = (\<lambda>n. ''id'' @ replicate n (CHR ''i'')),
      save_error = (\<lambda>p. None),
      max_form_memory_size = Some 500000\<rparr>"

text \<open>The two rows of the example record.\<close>

definition demo_row :: "int \<Rightarrow> int \<Rightarrow> 64 word \<Rightarrow> row" where
  "demo_row n q a =
     \<lparr>Invoice_Number = JStr ''INV1'', Waybill_Number = JStr '''', Customer_Name = JStr '''',
      Order_Number = JStr '''', Invoice_Date = JStr '''', Line_No = JInt n,
      Item_Code = JStr '''', Item_Description = JStr '''', Quantity = JInt q, UOM = JStr '''',
      Unit_Price = JInt 0, Total_Amount = JInt 0, Discount_Amount = JInt 0, VAT = JInt 0,
      Amount_Incl_VAT = JFloat a, Batch_No = JStr '''', Expiry_Date = JStr ''''\<rparr>"

definition demo_rows :: "row list" where
  "demo_rows = [demo_row 1 2 0x4049000000000000, demo_row 2 3 0x4052C00000000000]"

section \<open>Words of the statistics and upload claims\<close>


text \<open>The parts sent under the field \<^verbatim>\<open>files[]\<close>, in order (line 132), and the test of
  line 136 on one of them.\<close>

definition submitted :: "upload_request \<Rightarrow> file_storage list" where
  "submitted req = map snd (filter (\<lambda>kf. fst kf = ''files[]'') (files req))"







text \<open>A request with an allowed file whose name has 264 characters, between two short
  ones, and a request of 1001 small parts.\<close>

definition demo_long_name_upload :: upload_request where
  "demo_long_name_upload =
     \<lparr>content_length = 5000,
      form_fields = [],
      files = [(''files[]'', \<lparr>filename = ''ok.png'', content_size = 10\<rparr>),
               (''files[]'', \<lparr>filename = replicate 260 (CHR ''a'') @ ''.png'', content_size = 10\<rparr>),
               (''files[]'', \<lparr>filename = ''notes.txt'', content_size = 10\<rparr>)]\<rparr>"

definition demo_many_parts_upload :: upload_request where
  "demo_many_parts_upload =
     \<lparr>content_length = 200000,
      form_fields = [],
      files = replicate 1001 (''files[]'', \<lparr>filename = ''a.png'', content_size = 1\<rparr>)\<rparr>"

section \<open>Auxiliary lemmas and the claims\<close>

lemma is_dict_iff: "is_dict v \<longleftrightarrow> (\<exists>it. v = JDict it)"
  by (cases v) simp_all

lemma rows_loop_dicts:
  "list_all is_dict items \<Longrightarrow>
   \<exists>new. rows_loop h items rows = Inr (rows @ new) \<and> length new = length items \<and>
     (\<forall>i<length items. make_row h (items ! i) = Inr (new ! i))"
proof (induction items arbitrary: rows)
  case Nil
  then show ?case by simp
next
  case (Cons item items)
  from Cons.prems obtain it where it: "item = JDict it"
    by (auto simp: is_dict_iff)
  from Cons.prems have rest: "list_all is_dict items" by simp
  obtain r where r: "make_row h item = Inr r"
    unfolding it by simp
  from Cons.IH [OF rest, of "rows @ [r]"] obtain new where
    loop: "rows_loop h items (rows @ [r]) = Inr ((rows @ [r]) @ new)" and
    len: "length new = length items" and
    nth: "\<forall>i<length items. make_row h (items ! i) = Inr (new ! i)"
    by blast
  have "rows_loop h (item # items) rows = Inr (rows @ (r # new))"
    using r loop by simp
  moreover have "length (r # new) = length (item # items)"
    using len by simp
  moreover have "\<forall>i<length (item # items). make_row h ((item # items) ! i) = Inr ((r # new) ! i)"
    using r nth by (auto simp: nth_Cons split: nat.splits)
  ultimately show ?case by blast
qed

lemma read_header_dict:
  "read_header (JDict kvs) = Inr
     \<lparr>invoice_number = (case map_of kvs ''invoice_number'' of Some v \<Rightarrow> v | None \<Rightarrow> JStr ''''),
      waybill_number = (case map_of kvs ''waybill_number'' of Some v \<Rightarrow> v | None \<Rightarrow> JStr ''''),
      customer_name = (case map_of kvs ''customer_name'' of Some v \<Rightarrow> v | None \<Rightarrow> JStr ''''),
      order_number = (case map_of kvs ''order_number'' of Some v \<Rightarrow> v | None \<Rightarrow> JStr ''''),
      invoice_date = (case map_of kvs ''invoice_date'' of Some v \<Rightarrow> v | None \<Rightarrow> JStr '''')\<rparr>"
  by (simp add: read_header_def)

lemma map_of_Some_nonempty: "map_of kvs k = Some v \<Longrightarrow> kvs \<noteq> []"
  by auto

lemma flatten_dict_items:
  assumes "map_of kvs ''line_items'' = Some (JList items)" and "list_all is_dict items"
  shows "\<exists>rows h. flatten_to_rows (JDict kvs) = Inr rows \<and> read_header (JDict kvs) = Inr h \<and>
     length rows = length items \<and> (\<forall>i<length items. make_row h (items ! i) = Inr (rows ! i))"
proof -
  obtain h where h: "read_header (JDict kvs) = Inr h"
    using read_header_dict by blast
  from rows_loop_dicts [OF assms(2), of h "[]"] obtain new where
    "rows_loop h items [] = Inr new" "length new = length items"
    "\<forall>i<length items. make_row h (items ! i) = Inr (new ! i)"
    by auto
  moreover have "flatten_to_rows (JDict kvs) = rows_loop h items []"
    using assms(1) h map_of_Some_nonempty [OF assms(1)] by (simp add: flatten_to_rows_def)
  ultimately show ?thesis using h by auto
qed

lemma flatten_no_items:
  assumes "map_of kvs ''line_items'' = None \<or> map_of kvs ''line_items'' = Some (JList [])"
  shows "flatten_to_rows (JDict kvs) = Inr []"
proof (cases "kvs = []")
  case True
  then show ?thesis by (simp add: flatten_to_rows_def)
next
  case False
  obtain h where h: "read_header (JDict kvs) = Inr h"
    using read_header_dict by blast
  from assms have "py_get (JDict kvs) ''line_items'' (JList []) = Inr (JList [])"
    by auto
  then show ?thesis using False h by (simp add: flatten_to_rows_def)
qed

lemma make_row_fields:
  assumes "make_row h (JDict it) = Inr r"
  shows "Invoice_Number r = invoice_number h" "Waybill_Number r = waybill_number h"
    "Customer_Name r = customer_name h" "Order_Number r = order_number h"
    "Invoice_Date r = invoice_date h"
    "py_get (JDict it) ''line_no'' (JStr []) = Inr (Line_No r)"
    "py_get (JDict it) ''item_code'' (JStr []) = Inr (Item_Code r)"
    "py_get (JDict it) ''item_description'' (JStr []) = Inr (Item_Description r)"
    "py_get (JDict it) ''quantity'' (JInt 0) = Inr (Quantity r)"
    "py_get (JDict it) ''uom'' (JStr []) = Inr (UOM r)"
    "py_get (JDict it) ''unit_price'' (JInt 0) = Inr (Unit_Price r)"
    "py_get (JDict it) ''total_amount'' (JInt 0) = Inr (Total_Amount r)"
    "py_get (JDict it) ''discount_amount'' (JInt 0) = Inr (Discount_Amount r)"
    "py_get (JDict it) ''vat'' (JInt 0) = Inr (VAT r)"
    "py_get (JDict it) ''amount_incl_vat'' (JInt 0) = Inr (Amount_Incl_VAT r)"
    "py_get (JDict it) ''batch_no'' (JStr []) = Inr (Batch_No r)"
    "py_get (JDict it) ''expiry_date'' (JStr []) = Inr (Expiry_Date r)"
  using assms by auto

lemma read_header_fields:
  assumes "read_header (JDict kvs) = Inr h"
  shows "py_get (JDict kvs) ''invoice_number'' (JStr []) = Inr (invoice_number h)"
    "py_get (JDict kvs) ''waybill_number'' (JStr []) = Inr (waybill_number h)"
    "py_get (JDict kvs) ''customer_name'' (JStr []) = Inr (customer_name h)"
    "py_get (JDict kvs) ''order_number'' (JStr []) = Inr (order_number h)"
    "py_get (JDict kvs) ''invoice_date'' (JStr []) = Inr (invoice_date h)"
  using assms by (auto simp: read_header_def)


lemma row_of_itemI:
  assumes "read_header (JDict kvs) = Inr h" and "make_row h (JDict it) = Inr r"
  shows "row_of_item (JDict kvs) (JDict it) r"
  unfolding row_of_item_def
  using make_row_fields [OF assms(2)] read_header_fields [OF assms(1)] by simp

lemma flatten_dict_rows:
  assumes "map_of kvs ''line_items'' = Some (JList items)" and "list_all is_dict items"
  shows "\<exists>rows. flatten_to_rows (JDict kvs) = Inr rows \<and> length rows = length items \<and>
     (\<forall>i<length items. row_of_item (JDict kvs) (items ! i) (rows ! i))"
proof -
  from flatten_dict_items [OF assms] obtain rows h where
    fl: "flatten_to_rows (JDict kvs) = Inr rows" and
    h: "read_header (JDict kvs) = Inr h" and
    len: "length rows = length items" and
    nth: "\<forall>i<length items. make_row h (items ! i) = Inr (rows ! i)"
    by blast
  have "row_of_item (JDict kvs) (items ! i) (rows ! i)" if i: "i < length items" for i
  proof -
    from i have "is_dict (items ! i)"
      using assms(2) by (simp add: list_all_length)
    then obtain it where it: "items ! i = JDict it"
      by (auto simp: is_dict_iff)
    from nth i have "make_row h (items ! i) = Inr (rows ! i)" by blast
    then have r: "make_row h (JDict it) = Inr (rows ! i)" by (simp only: it)
    show ?thesis
      unfolding it by (rule row_of_itemI [OF h r])
  qed
  with fl len show ?thesis by blast
qed

text \<open>C1. A record (a dict) whose \<^verbatim>\<open>line_items\<close> is a list of \<open>N\<close> line items (dicts)
  is flattened, without an exception, into exactly \<open>N\<close> rows; the \<open>i\<close>-th row carries
  the five header values read from the record and the values of the \<open>i\<close>-th line
  item, so the rows keep the order of the line items. For \<open>N = 0\<close> there is no row
  and the header values appear nowhere.\<close>

theorem flatten_one_row_per_line_item:
  assumes "map_of kvs ''line_items'' = Some (JList items)" and "list_all is_dict items"
  shows "\<exists>rows. flatten_to_rows (JDict kvs) = Inr rows \<and> length rows = length items \<and>
     (\<forall>i<length items. row_of_item (JDict kvs) (items ! i) (rows ! i))"
  using assms by (rule flatten_dict_rows)

theorem flatten_one_row_per_line_item_witness:
  "map_of demo_record ''line_items'' = Some (JList demo_items) \<and> list_all is_dict demo_items \<and>
   (\<exists>rows. flatten_to_rows (JDict demo_record) = Inr rows \<and> length rows = 2 \<and>
      Invoice_Number (rows ! 0) = JStr ''INV1'' \<and> Line_No (rows ! 0) = JInt 1 \<and>
      Invoice_Number (rows ! 1) = JStr ''INV1'' \<and> Line_No (rows ! 1) = JInt 2)"
proof -
  have h1: "map_of demo_record ''line_items'' = Some (JList demo_items)"
    by (simp add: demo_record_def)
  have h2: "list_all is_dict demo_items"
    by (simp add: demo_items_def)
  from flatten_one_row_per_line_item [OF h1 h2] obtain rows where
    fl: "flatten_to_rows (JDict demo_record) = Inr rows" and
    len: "length rows = length demo_items" and
    nth: "\<forall>i<length demo_items. row_of_item (JDict demo_record) (demo_items ! i) (rows ! i)"
    by blast
  have two: "length demo_items = 2"
    by (simp add: demo_items_def)
  have "row_of_item (JDict demo_record) (demo_items ! 0) (rows ! 0)"
    "row_of_item (JDict demo_record) (demo_items ! 1) (rows ! 1)"
    by (rule nth [rule_format], simp add: two)+
  then have "Invoice_Number (rows ! 0) = JStr ''INV1''" "Line_No (rows ! 0) = JInt 1"
    "Invoice_Number (rows ! 1) = JStr ''INV1''" "Line_No (rows ! 1) = JInt 2"
    by (simp_all add: row_of_item_def demo_record_def demo_items_def)
  moreover have "length rows = 2"
    using len two by simp
  ultimately show ?thesis using h1 h2 fl by blast
qed

text \<open>C2. \<^verbatim>\<open>flatten_to_rows\<close> returns the empty list, and raises nothing, for \<^verbatim>\<open>None\<close>
  and for every record (dict) that has no \<^verbatim>\<open>line_items\<close> key or whose
  \<^verbatim>\<open>line_items\<close> is the empty list.\<close>

theorem flatten_without_line_items:
  "flatten_to_rows JNull = Inr [] \<and>
   (map_of kvs ''line_items'' = None \<or> map_of kvs ''line_items'' = Some (JList [])
      \<longrightarrow> flatten_to_rows (JDict kvs) = Inr [])"
  using flatten_no_items [of kvs] by (simp add: flatten_to_rows_def)

theorem flatten_without_line_items_witness:
  "map_of [(''invoice_number'', JStr ''INV1'')] ''line_items'' = None \<and>
   flatten_to_rows (JDict [(''invoice_number'', JStr ''INV1'')]) = Inr [] \<and>
   map_of [(''line_items'', JList [])] ''line_items'' = Some (JList []) \<and>
   flatten_to_rows (JDict [(''line_items'', JList [])]) = Inr [] \<and>
   flatten_to_rows JNull = Inr []"
  using flatten_without_line_items [of "[(''invoice_number'', JStr ''INV1'')]"]
    flatten_without_line_items [of "[(''line_items'', JList [])]"]
  by simp

text \<open>C7, as the code has it. In the row made for a line item, a missing quantity, unit
  price, total amount, discount amount, VAT or amount including VAT is \<open>0\<close>; a missing
  line number is the empty string, like a missing item code, description, unit of
  measure, batch number or expiry date.\<close>

theorem line_item_defaults:
  assumes "map_of kvs ''line_items'' = Some (JList items)" and "list_all is_dict items"
    and "i < length items" and "items ! i = JDict it"
  shows "\<exists>rows. flatten_to_rows (JDict kvs) = Inr rows \<and>
    (map_of it ''line_no'' = None \<longrightarrow> Line_No (rows ! i) = JStr '''') \<and>
    (map_of it ''item_code'' = None \<longrightarrow> Item_Code (rows ! i) = JStr '''') \<and>
    (map_of it ''item_description'' = None \<longrightarrow> Item_Description (rows ! i) = JStr '''') \<and>
    (map_of it ''quantity'' = None \<longrightarrow> Quantity (rows ! i) = JInt 0) \<and>
    (map_of it ''uom'' = None \<longrightarrow> UOM (rows ! i) = JStr '''') \<and>
    (map_of it ''unit_price'' = None \<longrightarrow> Unit_Price (rows ! i) = JInt 0) \<and>
    (map_of it ''total_amount'' = None \<longrightarrow> Total_Amount (rows ! i) = JInt 0) \<and>
    (map_of it ''discount_amount'' = None \<longrightarrow> Discount_Amount (rows ! i) = JInt 0) \<and>
    (map_of it ''vat'' = None \<longrightarrow> VAT (rows ! i) = JInt 0) \<and>
    (map_of it ''amount_incl_vat'' = None \<longrightarrow> Amount_Incl_VAT (rows ! i) = JInt 0) \<and>
    (map_of it ''batch_no'' = None \<longrightarrow> Batch_No (rows ! i) = JStr '''') \<and>
    (map_of it ''expiry_date'' = None \<longrightarrow> Expiry_Date (rows ! i) = JStr '''')"
proof -
  from flatten_dict_rows [OF assms(1,2)] obtain rows where
    fl: "flatten_to_rows (JDict kvs) = Inr rows" and
    nth: "\<forall>i<length items. row_of_item (JDict kvs) (items ! i) (rows ! i)"
    by blast
  from nth assms(3,4) have "row_of_item (JDict kvs) (JDict it) (rows ! i)"
    by auto
  then show ?thesis
    using fl by (auto simp: row_of_item_def)
qed

theorem line_item_defaults_witness:
  "map_of [(''line_items'', JList [JDict []])] ''line_items'' = Some (JList [JDict []]) \<and>
   list_all is_dict [JDict []] \<and> (0::nat) < length [JDict []] \<and> [JDict []] ! 0 = JDict [] \<and>
   (\<exists>rows. flatten_to_rows (JDict [(''line_items'', JList [JDict []])]) = Inr rows \<and>
      Line_No (rows ! 0) = JStr '''' \<and> Item_Code (rows ! 0) = JStr '''' \<and>
      Item_Description (rows ! 0) = JStr '''' \<and> Quantity (rows ! 0) = JInt 0 \<and>
      UOM (rows ! 0) = JStr '''' \<and> Unit_Price (rows ! 0) = JInt 0 \<and>
      Total_Amount (rows ! 0) = JInt 0 \<and> Discount_Amount (rows ! 0) = JInt 0 \<and>
      VAT (rows ! 0) = JInt 0 \<and> Amount_Incl_VAT (rows ! 0) = JInt 0 \<and>
      Batch_No (rows ! 0) = JStr '''' \<and> Expiry_Date (rows ! 0) = JStr '''')"
  using line_item_defaults [of "[(''line_items'', JList [JDict []])]" "[JDict []]" 0 "[]"]
  by simp

text \<open>The claim as stated fails for the line number: the row of a line item without
  \<^verbatim>\<open>line_no\<close> holds the empty string there, not \<open>0\<close>.\<close>

theorem line_no_default_counterexample:
  "map_sum id (map Line_No) (flatten_to_rows (JDict [(''line_items'', JList [JDict []])])) =
     Inr [JStr ''''] \<and> JStr '''' \<noteq> JInt 0"
  by (simp add: flatten_to_rows_def read_header_def)

subsection \<open>The batch loop\<close>

lemma process_loop_acc:
  "process_loop ev paths (rows, n, out) =
     (case process_loop ev paths ([], 0, []) of (r, k, l) \<Rightarrow> (rows @ r, n + k, out @ l))"
proof (induction paths arbitrary: rows n out)
  case Nil
  then show ?case by simp
next
  case (Cons p paths)
  obtain d pr where ex: "extract_invoice_data ev p = (d, pr)"
    by (cases "extract_invoice_data ev p")
  show ?case
  proof (cases "truthy d")
    case False
    have "process_loop ev (p # paths) (rows, n, out) = process_loop ev paths (rows, n, out @ pr)"
      using ex False by simp
    moreover have "process_loop ev (p # paths) ([], 0, []) = process_loop ev paths ([], 0, pr)"
      using ex False by simp
    ultimately show ?thesis
      using Cons.IH [of rows n "out @ pr"] Cons.IH [of "[]" 0 pr]
      by (simp split: prod.splits)
  next
    case True
    show ?thesis
    proof (cases "flatten_to_rows d")
      case (Inl e)
      have "process_loop ev (p # paths) (rows, n, out) =
          process_loop ev paths (rows, n, out @ pr @ [ProcessError p e])"
        using ex True Inl by simp
      moreover have "process_loop ev (p # paths) ([], 0, []) =
          process_loop ev paths ([], 0, pr @ [ProcessError p e])"
        using ex True Inl by simp
      ultimately show ?thesis
        using Cons.IH [of rows n "out @ pr @ [ProcessError p e]"]
          Cons.IH [of "[]" 0 "pr @ [ProcessError p e]"]
        by (simp split: prod.splits)
    next
      case (Inr new)
      have "process_loop ev (p # paths) (rows, n, out) =
          process_loop ev paths (rows @ new, n + 1, out @ pr)"
        using ex True Inr by simp
      moreover have "process_loop ev (p # paths) ([], 0, []) =
          process_loop ev paths (new, 1, pr)"
        using ex True Inr by simp
      ultimately show ?thesis
        using Cons.IH [of "rows @ new" "n + 1" "out @ pr"] Cons.IH [of new 1 pr]
        by (simp split: prod.splits)
    qed
  qed
qed

lemma process_loop_append:
  "process_loop ev (xs @ ys) acc = process_loop ev ys (process_loop ev xs acc)"
proof (induction xs arbitrary: acc)
  case Nil
  then show ?case by simp
next
  case (Cons p xs)
  obtain rows n out where acc: "acc = (rows, n, out)"
    by (cases acc) auto
  show ?case
    unfolding acc
    by (simp add: Cons.IH split: prod.splits sum.splits)
qed

lemma extract_failure:
  "extraction_failure ev p = Some e \<Longrightarrow> extract_invoice_data ev p = (JNull, [ExtractError e])"
  by (auto simp: extraction_failure_def extract_invoice_data_def
      split: sum.splits option.splits)

lemma process_loop_failed_step:
  assumes "extraction_failure ev p = Some e"
  shows "process_loop ev (p # ys) (rows, n, out) = process_loop ev ys (rows, n, out @ [ExtractError e])"
  using extract_failure [OF assms] by simp

lemma process_loop_count:
  "fst (snd (process_loop ev paths (rows, n, out))) = n + length (filter (counts_as_processed ev) paths)"
proof (induction paths arbitrary: rows n out)
  case Nil
  then show ?case by simp
next
  case (Cons p paths)
  obtain d pr where ex: "extract_invoice_data ev p = (d, pr)"
    by (cases "extract_invoice_data ev p")
  show ?case
  proof (cases "truthy d")
    case False
    then have "\<not> counts_as_processed ev p"
      using ex by (simp add: counts_as_processed_def)
    then show ?thesis
      using ex False Cons.IH by simp
  next
    case True
    show ?thesis
    proof (cases "flatten_to_rows d")
      case (Inl e)
      then have "\<not> counts_as_processed ev p"
        using ex by (simp add: counts_as_processed_def)
      then show ?thesis
        using ex True Inl Cons.IH by simp
    next
      case (Inr new)
      then have "counts_as_processed ev p"
        using ex True by (simp add: counts_as_processed_def)
      then show ?thesis
        using ex True Inr Cons.IH by simp
    qed
  qed
qed

lemma demo_clean_blank: "clean_response demo_blank_text = ''{}''"
  by (simp add: demo_blank_text_def clean_response_def fence_def py_strip_def py_replace_def is_space_def
      numeral_3_eq_3)

lemma demo_clean_header:
  \<open>clean_response ''{"invoice_number":"INV2"}'' = ''{"invoice_number":"INV2"}''\<close>
  by (simp add: clean_response_def fence_def py_strip_def py_replace_def is_space_def
      numeral_3_eq_3)

lemma demo_clean_text: "clean_response demo_text = demo_text"
  by (simp add: demo_text_def clean_response_def fence_def py_strip_def py_replace_def
      is_space_def numeral_3_eq_3)

lemma demo_extract_blank:
  "extract_invoice_data demo_env (JStr ''blank.png'') = (JDict [], [])"
  by (simp add: extract_invoice_data_def demo_env_def demo_service_def demo_loads_def
      demo_clean_blank demo_text_def)

lemma demo_extract_header:
  "extract_invoice_data demo_env (JStr ''header.png'') =
     (JDict [(''invoice_number'', JStr ''INV2'')], [])"
  by (simp add: extract_invoice_data_def demo_env_def demo_service_def demo_loads_def
      demo_clean_header demo_text_def)

lemma demo_extract_inv1:
  "extract_invoice_data demo_env (JStr ''inv1.png'') = (JDict demo_record, [])"
  by (simp add: extract_invoice_data_def demo_env_def demo_service_def demo_loads_def
      demo_clean_text)

lemma demo_failure_bad:
  "extraction_failure demo_env (JStr ''bad.png'') = Some (ServiceError ''unavailable'')"
  by (simp add: extraction_failure_def demo_env_def demo_service_def)

lemma demo_flatten_record: "flatten_to_rows (JDict demo_record) = Inr demo_rows"
  by (simp add: flatten_to_rows_def read_header_def demo_record_def demo_items_def
      demo_rows_def demo_row_def)

lemma demo_flatten_header:
  "flatten_to_rows (JDict [(''invoice_number'', JStr ''INV2'')]) = Inr []"
  by (simp add: flatten_to_rows_def read_header_def)

lemma demo_extract_garbled:
  "extract_invoice_data demo_env (JStr ''garbled.png'') = (JNull, [ExtractError JSONDecodeError])"
  by (simp add: extract_invoice_data_def demo_env_def demo_service_def demo_loads_def
      demo_text_def clean_response_def fence_def py_strip_def py_replace_def is_space_def
      numeral_3_eq_3)

text \<open>C4. When the extraction of one file of a batch fails with exception \<open>e\<close> (the
  service raises, the response has no text, or the text does not decode), the loop
  returns what the files before it and the files after it give, in that order: the rows
  of both, the sum of their counts (the failed file adds nothing), and between their
  printed lines the one line that reports \<open>e\<close>. The loop has no other outcome: no
  exception leaves it.\<close>

theorem failed_extraction_is_skipped:
  assumes "extraction_failure ev p = Some e"
  shows "process_loop ev (xs @ p # ys) ([], 0, []) =
     (case process_loop ev xs ([], 0, []) of (rows1, n1, out1) \<Rightarrow>
      case process_loop ev ys ([], 0, []) of (rows2, n2, out2) \<Rightarrow>
        (rows1 @ rows2, n1 + n2, out1 @ [ExtractError e] @ out2))"
proof -
  obtain rows1 n1 out1 where xs: "process_loop ev xs ([], 0, []) = (rows1, n1, out1)"
    by (cases "process_loop ev xs ([], 0, [])") auto
  obtain rows2 n2 out2 where ys: "process_loop ev ys ([], 0, []) = (rows2, n2, out2)"
    by (cases "process_loop ev ys ([], 0, [])") auto
  have "process_loop ev (xs @ p # ys) ([], 0, []) = process_loop ev (p # ys) (rows1, n1, out1)"
    by (simp add: process_loop_append xs)
  also have "\<dots> = process_loop ev ys (rows1, n1, out1 @ [ExtractError e])"
    by (rule process_loop_failed_step [OF assms])
  also have "\<dots> = (rows1 @ rows2, n1 + n2, (out1 @ [ExtractError e]) @ out2)"
    by (subst process_loop_acc) (simp add: ys)
  finally show ?thesis
    by (simp add: xs ys)
qed

theorem failed_extraction_is_skipped_witness:
  "extraction_failure demo_env (JStr ''bad.png'') = Some (ServiceError ''unavailable'') \<and>
   process_loop demo_env ([JStr ''inv1.png''] @ JStr ''bad.png'' # [JStr ''header.png''])
       ([], 0, []) =
     (demo_rows, 2, [ExtractError (ServiceError ''unavailable'')])"
proof -
  have ne: "demo_record \<noteq> []"
    by (simp add: demo_record_def)
  have one: "process_loop demo_env [JStr ''inv1.png''] ([], 0, []) = (demo_rows, 1, [])"
    by (simp add: demo_extract_inv1 demo_flatten_record ne)
  have three: "process_loop demo_env [JStr ''header.png''] ([], 0, []) = ([], 1, [])"
    by (simp add: demo_extract_header demo_flatten_header)
  show ?thesis
    using failed_extraction_is_skipped [OF demo_failure_bad, of "[JStr ''inv1.png'']"
        "[JStr ''header.png'']"]
    by (simp only: one three demo_failure_bad prod.case append_Nil2 append_Nil)
      simp
qed

text \<open>C3, as the code has it. The count that the loop returns is the number of files
  whose extraction gave a value that is true in Python (neither \<^verbatim>\<open>None\<close> nor empty)
  and that \<^verbatim>\<open>flatten_to_rows\<close> accepted. A record with at least one key and no line
  items (no \<^verbatim>\<open>line_items\<close> key, or an empty list) is such a file.\<close>

theorem processed_count:
  "fst (snd (process_loop ev paths ([], 0, []))) = length (filter (counts_as_processed ev) paths) \<and>
   (fst (extract_invoice_data ev p) = JDict kvs \<and> kvs \<noteq> [] \<and>
      (map_of kvs ''line_items'' = None \<or> map_of kvs ''line_items'' = Some (JList []))
    \<longrightarrow> counts_as_processed ev p)"
proof -
  have "counts_as_processed ev p"
    if "fst (extract_invoice_data ev p) = JDict kvs" and "kvs \<noteq> []"
      and "map_of kvs ''line_items'' = None \<or> map_of kvs ''line_items'' = Some (JList [])"
    using that flatten_no_items [of kvs] by (simp add: counts_as_processed_def)
  then show ?thesis
    using process_loop_count [of ev paths "[]" 0 "[]"] by simp
qed

theorem processed_count_witness:
  "fst (extract_invoice_data demo_env (JStr ''header.png'')) =
     JDict [(''invoice_number'', JStr ''INV2'')] \<and>
   map_of [(''invoice_number'', JStr ''INV2'')] ''line_items'' = None \<and>
   counts_as_processed demo_env (JStr ''header.png'') \<and>
   fst (snd (process_loop demo_env [JStr ''header.png'', JStr ''garbled.png''] ([], 0, []))) = 1"
  using processed_count [of demo_env "[JStr ''header.png'', JStr ''garbled.png'']"
      "JStr ''header.png''" "[(''invoice_number'', JStr ''INV2'')]"]
  by (simp add: demo_extract_header demo_extract_garbled counts_as_processed_def
      demo_flatten_header)

text \<open>The claim as stated fails for the empty object: the response \<^verbatim>\<open>{}\<close> decodes to a
  record without a \<^verbatim>\<open>line_items\<close> key, which flattens to zero rows, and the file is
  not counted.\<close>

theorem empty_record_not_counted_counterexample:
  "extract_invoice_data demo_env (JStr ''blank.png'') = (JDict [], []) \<and>
   map_of ([] :: (string \<times> json) list) ''line_items'' = None \<and>
   flatten_to_rows (JDict []) = Inr [] \<and>
   process_loop demo_env [JStr ''blank.png''] ([], 0, []) = ([], 0, [])"
  by (simp add: demo_extract_blank flatten_to_rows_def)

text \<open>C8. On the empty row set the statistics are computed without an exception:
  no document, no line item, quantity \<open>0\<close>, and as value the integer \<open>0\<close>, which is
  the number that the float \<open>0.0\<close> (bit pattern \<open>0\<close>) is.\<close>

theorem stats_of_no_rows:
  "calc_stats ev [] =
     Inr \<lparr>total_documents = 0, total_line_items = 0, total_quantity = 0, total_value = JInt 0\<rparr> \<and>
   num_value (JInt 0) = num_value (JFloat 0)"
  by (simp add: calc_stats_def stat_total_documents_def stat_total_quantity_def
      stat_total_value_def float_value_def)

text \<open>C10. A request body (a dict) without \<^verbatim>\<open>file_paths\<close>, or with an empty list
  there, is answered with the error of status 400, and the state is the one before the
  call: \<^verbatim>\<open>get_data\<close> returns the rows it returned before.\<close>

theorem process_without_paths:
  assumes "map_of kvs ''file_paths'' = None \<or> map_of kvs ''file_paths'' = Some (JList [])"
  shows "process_files ev st (JDict kvs) = (ErrorResponse 400 ''No files to process'', st) \<and>
    get_data (snd (process_files ev st (JDict kvs))) = get_data st"
proof -
  from assms have "py_get (JDict kvs) ''file_paths'' (JList []) = Inr (JList [])"
    by auto
  then have "process_files ev st (JDict kvs) = (ErrorResponse 400 ''No files to process'', st)"
    by (simp add: process_files_def)
  then show ?thesis by simp
qed

theorem process_without_paths_witness:
  "map_of [(''file_paths'', JList [])] ''file_paths'' = Some (JList []) \<and>
   process_files demo_env \<lparr>extracted_data = demo_rows, printed_lines = []\<rparr>
       (JDict [(''file_paths'', JList [])]) =
     (ErrorResponse 400 ''No files to process'',
      \<lparr>extracted_data = demo_rows, printed_lines = []\<rparr>) \<and>
   map_of ([] :: (string \<times> json) list) ''file_paths'' = None \<and>
   get_data (snd (process_files demo_env \<lparr>extracted_data = demo_rows, printed_lines = []\<rparr>
       (JDict []))) = DataResponse demo_rows 2"
  using process_without_paths [of "[(''file_paths'', JList [])]" demo_env
      "\<lparr>extracted_data = demo_rows, printed_lines = []\<rparr>"]
    process_without_paths [of "[]" demo_env
      "\<lparr>extracted_data = demo_rows, printed_lines = []\<rparr>"]
  by (simp add: get_data_def demo_rows_def)

text \<open>The handler on the batch of the three files \<^verbatim>\<open>inv1.png\<close>, \<^verbatim>\<open>bad.png\<close> and
  \<^verbatim>\<open>header.png\<close>: two files processed, the two rows of the first, and their
  statistics (one document, quantity 5, value 125.0).\<close>

lemma demo_batch_response:
  "process_files demo_env \<lparr>extracted_data = [], printed_lines = []\<rparr>
     (JDict [(''file_paths'', JList [JStr ''inv1.png'', JStr ''bad.png'', JStr ''header.png''])]) =
   (ProcessResponse 2 2
      \<lparr>total_documents = 1, total_line_items = 2, total_quantity = 5,
        total_value = JFloat 0x405F400000000000\<rparr>,
    \<lparr>extracted_data = demo_rows,
      printed_lines = [ExtractError (ServiceError ''unavailable'')]\<rparr>)"
proof -
  have ne: "demo_record \<noteq> []"
    by (simp add: demo_record_def)
  have loop: "process_loop demo_env [JStr ''inv1.png'', JStr ''bad.png'', JStr ''header.png'']
      ([], 0, []) = (demo_rows, 2, [ExtractError (ServiceError ''unavailable'')])"
    by (simp add: demo_extract_inv1 demo_flatten_record ne demo_extract_header
        demo_flatten_header extract_failure [OF demo_failure_bad])
  have docs: "stat_total_documents demo_env demo_rows = Inr 1"
    by (simp add: stat_total_documents_def nunique_def demo_rows_def demo_row_def)
  have qty: "stat_total_quantity demo_env demo_rows = Inr 5"
    by (simp add: stat_total_quantity_def int_of_sum_def demo_rows_def demo_row_def)
  have val: "stat_total_value demo_env demo_rows = Inr (JFloat 0x405F400000000000)"
    by (simp add: stat_total_value_def demo_env_def demo_rows_def demo_row_def)
  have len: "length demo_rows = 2"
    by (simp add: demo_rows_def)
  have cl: "client_error demo_env = None"
    by (simp add: demo_env_def)
  show ?thesis
    by (simp add: process_files_def cl loop calc_stats_def docs qty val len
        del: process_loop.simps)
qed

subsection \<open>The statistics\<close>

lemma nunique_plain:
  assumes "list_all plain_value col"
  shows "nunique ev col = Inr (card (set col - {JNull}))"
proof -
  have "set (filter (\<lambda>v. v \<noteq> JNull) col) = set col - {JNull}"
    by auto
  then have "length (remdups (filter (\<lambda>v. v \<noteq> JNull) col)) = card (set col - {JNull})"
    by (simp add: length_remdups_card_conv)
  then show ?thesis
    using assms by (simp add: nunique_def)
qed

text \<open>C5. For rows whose invoice numbers are strings (what the data model declares them
  to be), \<^verbatim>\<open>None\<close>, or integers of magnitude at most \<open>2\<^sup>5\<^sup>3\<close>,
  \<^verbatim>\<open>total_documents\<close> is the number of distinct invoice numbers among the rows,
  \<^verbatim>\<open>None\<close> standing for no invoice number; where no row lacks its invoice number
  this is the number of distinct values of the column. Rows that share one invoice
  number count once, rows with two invoice numbers count twice.\<close>

theorem documents_are_distinct_invoice_numbers:
  assumes "list_all plain_value (map Invoice_Number rows)"
  shows "stat_total_documents ev rows = Inr (card (Invoice_Number ` set rows - {JNull})) \<and>
    (JNull \<notin> Invoice_Number ` set rows \<longrightarrow>
       stat_total_documents ev rows = Inr (card (Invoice_Number ` set rows)))"
proof -
  have "stat_total_documents ev rows = Inr (card (Invoice_Number ` set rows - {JNull}))"
    using nunique_plain [OF assms, of ev] by (simp add: stat_total_documents_def)
  then show ?thesis by simp
qed

theorem documents_are_distinct_invoice_numbers_witness:
  "list_all plain_value (map Invoice_Number demo_rows) \<and>
   JNull \<notin> Invoice_Number ` set demo_rows \<and>
   stat_total_documents demo_env demo_rows = Inr 1 \<and>
   list_all plain_value
     (map Invoice_Number [demo_row 1 2 0, (demo_row 1 4 0)\<lparr>Invoice_Number := JStr ''INV2''\<rparr>]) \<and>
   stat_total_documents demo_env
     [demo_row 1 2 0, (demo_row 1 4 0)\<lparr>Invoice_Number := JStr ''INV2''\<rparr>] = Inr 2"
proof -
  have a: "list_all plain_value (map Invoice_Number demo_rows)"
    by (simp add: demo_rows_def demo_row_def)
  have b: "list_all plain_value
     (map Invoice_Number [demo_row 1 2 0, (demo_row 1 4 0)\<lparr>Invoice_Number := JStr ''INV2''\<rparr>])"
    by (simp add: demo_row_def)
  have c: "Invoice_Number ` set demo_rows = {JStr ''INV1''}"
    by (simp add: demo_rows_def demo_row_def)
  have d: "Invoice_Number `
      set [demo_row 1 2 0, (demo_row 1 4 0)\<lparr>Invoice_Number := JStr ''INV2''\<rparr>] =
      {JStr ''INV1'', JStr ''INV2''}"
    by (auto simp: demo_row_def)
  show ?thesis
    using a b documents_are_distinct_invoice_numbers [OF a, of demo_env]
      documents_are_distinct_invoice_numbers [OF b, of demo_env]
    unfolding c d by simp
qed












subsection \<open>Upload\<close>


lemma upload_files_loop:
  assumes "framework_accepts ev req" and "''files[]'' \<in> fst ` set (files req)"
  shows "upload_files ev req =
     (case upload_loop ev (submitted req) 0 [] of
        Inl e \<Rightarrow> Unhandled e
      | Inr ups \<Rightarrow> UploadResponse ups (length ups))"
  using assms by (simp add: upload_files_def submitted_def Let_def)




text \<open>Two more requests that get no list: an allowed file whose stored name is longer
  than the file system takes stops the handler with the exception of \<^verbatim>\<open>file.save\<close>,
  after the file before it was stored; a request of 1001 parts is refused by the
  framework.\<close>

lemma demo_long_name_response:
  "upload_files demo_env demo_long_name_upload = Unhandled OSError"
proof -
  have a: "framework_accepts demo_env demo_long_name_upload"
    by (simp add: framework_accepts_def demo_long_name_upload_def demo_env_def
        MAX_CONTENT_LENGTH_def MAX_FORM_PARTS_def)
  have b: "''files[]'' \<in> fst ` set (files demo_long_name_upload)"
    by (simp add: demo_long_name_upload_def)
  have "upload_loop demo_env (submitted demo_long_name_upload) 0 [] = Inl OSError"
    by (simp add: submitted_def demo_long_name_upload_def allowed_file_def
        ALLOWED_EXTENSIONS_def extension_def lower_char_def file_save_def NAME_MAX_def
        demo_env_def Let_def takeWhile_append)
  then show ?thesis
    using upload_files_loop [OF a b] by simp
qed

lemma demo_many_parts_response:
  "upload_files demo_env demo_many_parts_upload =
     ErrorResponse 413 ''Request Entity Too Large''"
  by (simp add: upload_files_def framework_accepts_def demo_many_parts_upload_def
      MAX_FORM_PARTS_def)

end
